theory Spec2Isabelle
  imports Main
begin

section \<open>Python strings\<close>

text \<open>
  A Python \<open>str\<close> is modelled as a \<open>string\<close>, one \<open>char\<close> per code point (so only
  code points below 256 are represented). Case mapping is the ASCII one: the letters
  \<open>a\<close>..\<open>z\<close> and \<open>A\<close>..\<open>Z\<close> are the cased characters, every other character is
  left as it is.
\<close>

definition ascii_lowercase :: string where
  "ascii_lowercase = ''abcdefghijklmnopqrstuvwxyz''"

definition ascii_uppercase :: string where
  "ascii_uppercase = ''ABCDEFGHIJKLMNOPQRSTUVWXYZ''"

definition py_upper_char :: "char \<Rightarrow> char" where
  "py_upper_char c =
     (case map_of (zip ascii_lowercase ascii_uppercase) c of Some u \<Rightarrow> u | None \<Rightarrow> c)"

definition py_lower_char :: "char \<Rightarrow> char" where
  "py_lower_char c =
     (case map_of (zip ascii_uppercase ascii_lowercase) c of Some l \<Rightarrow> l | None \<Rightarrow> c)"

definition is_cased :: "char \<Rightarrow> bool" where
  "is_cased c = (c \<in> set ascii_lowercase \<or> c \<in> set ascii_uppercase)"

text \<open>\<open>str.lower()\<close>.\<close>

definition py_lower :: "string \<Rightarrow> string" where
  "py_lower s = map py_lower_char s"

text \<open>
  \<open>str.isspace()\<close> on one code point below 256: tab, line feed, vertical tab, form
  feed, carriage return, the four separators 28..31, space, NEL (133) and the
  no-break space (160).
\<close>

definition is_space :: "char \<Rightarrow> bool" where
  "is_space c = (c \<in> set [CHR 0x09, CHR 0x0A, CHR 0x0B, CHR 0x0C, CHR 0x0D,
     CHR 0x1C, CHR 0x1D, CHR 0x1E, CHR 0x1F, CHR 0x20, CHR 0x85, CHR 0xA0])"

text \<open>\<open>str.strip()\<close> with no argument.\<close>

definition py_strip :: "string \<Rightarrow> string" where
  "py_strip s = rev (dropWhile is_space (rev (dropWhile is_space s)))"

text \<open>\<open>str.endswith(suffix)\<close>.\<close>

definition py_endswith :: "string \<Rightarrow> string \<Rightarrow> bool" where
  "py_endswith s suf =
     (length suf \<le> length s \<and> drop (length s - length suf) s = suf)"

text \<open>
  \<open>str.replace(old, new)\<close>: every non-overlapping occurrence of \<open>old\<close>, found from
  the left, is replaced. With an empty \<open>old\<close> Python puts \<open>new\<close> before every
  character and at the end.
\<close>

function py_replace :: "string \<Rightarrow> string \<Rightarrow> string \<Rightarrow> string" where
  "py_replace old new [] = (if old = [] then new else [])"
| "py_replace old new (c # cs) =
     (if old = [] then new @ c # py_replace old new cs
      else if take (length old) (c # cs) = old
        then new @ py_replace old new (drop (length old) (c # cs))
      else c # py_replace old new cs)"
  by pat_completeness auto
termination
  by (relation "measure (\<lambda>(old, new, s). length s)") (auto simp: Suc_le_eq)

text \<open>
  \<open>str.title()\<close>: a cased character is upper-cased when the character before it is
  not cased (or there is none), and lower-cased otherwise; other characters are kept.
\<close>

fun title_from :: "bool \<Rightarrow> string \<Rightarrow> string" where
  "title_from previous_is_cased [] = []"
| "title_from previous_is_cased (c # cs) =
     (if previous_is_cased then py_lower_char c else py_upper_char c)
       # title_from (is_cased c) cs"

definition py_title :: "string \<Rightarrow> string" where
  "py_title s = title_from False s"

text \<open>Python's slice \<open>s[:n]\<close> for \<open>n \<ge> 0\<close> is \<open>take n s\<close>.\<close>

section \<open>The regular expressions of the structured calls\<close>

text \<open>
  \<open>re.search(r'\{[^{}]*\}', text)\<close> of \<open>_extract_financial_metrics\<close>. A match that
  starts at the head of the string: an opening brace, the longest run of characters
  that are not braces, and a closing brace. (A shorter run would leave a character
  that is not a brace where the closing brace has to be, so the greedy run decides.)
\<close>

definition is_brace :: "char \<Rightarrow> bool" where
  "is_brace c = (c = CHR ''{'' \<or> c = CHR ''}'')"

fun match_flat_object :: "string \<Rightarrow> string option" where
  "match_flat_object [] = None"
| "match_flat_object (c # cs) =
     (if c = CHR ''{'' then
        (case dropWhile (\<lambda>x. \<not> is_brace x) cs of
           [] \<Rightarrow> None
         | d # _ \<Rightarrow> if d = CHR ''}''
                    then Some (c # takeWhile (\<lambda>x. \<not> is_brace x) cs @ [d])
                    else None)
      else None)"

text \<open>\<open>re.search\<close> tries the start positions from left to right.\<close>

fun search_flat_object :: "string \<Rightarrow> string option" where
  "search_flat_object [] = None"
| "search_flat_object (c # cs) =
     (case match_flat_object (c # cs) of
        Some m \<Rightarrow> Some m
      | None \<Rightarrow> search_flat_object cs)"

text \<open>
  \<open>re.search(r'\[.*\]', text, re.DOTALL)\<close> of the recommendation, risk and insight
  calls, and \<open>re.search(r'\{.*\}', text, re.DOTALL)\<close> of \<open>tools.py\<close>: the opening
  character, then greedily everything up to the last closing character. The two
  delimiters are parameters.
\<close>

definition upto_last :: "char \<Rightarrow> string \<Rightarrow> string" where
  "upto_last cl s = rev (dropWhile (\<lambda>x. x \<noteq> cl) (rev s))"

fun match_greedy :: "char \<Rightarrow> char \<Rightarrow> string \<Rightarrow> string option" where
  "match_greedy opn cl [] = None"
| "match_greedy opn cl (c # cs) =
     (if c = opn \<and> cl \<in> set cs then Some (c # upto_last cl cs) else None)"

fun search_greedy :: "char \<Rightarrow> char \<Rightarrow> string \<Rightarrow> string option" where
  "search_greedy opn cl [] = None"
| "search_greedy opn cl (c # cs) =
     (case match_greedy opn cl (c # cs) of
        Some m \<Rightarrow> Some m
      | None \<Rightarrow> search_greedy opn cl cs)"

definition search_array :: "string \<Rightarrow> string option" where
  "search_array s = search_greedy CHR ''['' CHR '']'' s"

definition search_object_dotall :: "string \<Rightarrow> string option" where
  "search_object_dotall s = search_greedy CHR ''{'' CHR ''}'' s"

subsection \<open>The selection the specification describes\<close>

text \<open>
  Follows the specification's words, not the source: "the first balanced \<open>{...}\<close> or
  \<open>[...]\<close> substring". From an opening bracket the scan keeps the stack of closing
  brackets still expected and stops when the stack is empty; a wrong closing bracket
  or the end of the text means that no balanced substring starts there.
\<close>

definition closer :: "char \<Rightarrow> char" where
  "closer c = (if c = CHR ''{'' then CHR ''}'' else CHR '']'')"

definition is_opener :: "char \<Rightarrow> bool" where
  "is_opener c = (c = CHR ''{'' \<or> c = CHR ''['')"

definition is_closer :: "char \<Rightarrow> bool" where
  "is_closer c = (c = CHR ''}'' \<or> c = CHR '']'')"

fun scan_balanced :: "char list \<Rightarrow> string \<Rightarrow> nat option" where
  "scan_balanced [] s = Some 0"
| "scan_balanced (k # ks) [] = None"
| "scan_balanced (k # ks) (c # cs) =
     (if is_opener c then map_option Suc (scan_balanced (closer c # k # ks) cs)
      else if is_closer c then
        (if c = k then map_option Suc (scan_balanced ks cs) else None)
      else map_option Suc (scan_balanced (k # ks) cs))"

fun spec_first_balanced :: "string \<Rightarrow> string option" where
  "spec_first_balanced [] = None"
| "spec_first_balanced (c # cs) =
     (if is_opener c then
        (case scan_balanced [closer c] cs of
           Some n \<Rightarrow> Some (c # take n cs)
         | None \<Rightarrow> spec_first_balanced cs)
      else spec_first_balanced cs)"

section \<open>Values, exceptions and the environment\<close>

text \<open>
  What \<open>json.loads\<close> returns and what is stored in a JSON column. A number is kept by
  the text Python prints for it.
\<close>

datatype json =
    JNull
  | JBool bool
  | JNum string
  | JStr string
  | JArr "json list"
  | JObj "(string \<times> json) list"

text \<open>\<open>isinstance(v, dict)\<close>, and \<open>d.get(key)\<close> on a value that is a dict.\<close>

fun is_dict :: "json \<Rightarrow> bool" where
  "is_dict (JObj kvs) = True"
| "is_dict v = False"

fun dict_get :: "json \<Rightarrow> string \<Rightarrow> json option" where
  "dict_get (JObj kvs) k = map_of kvs k"
| "dict_get v k = None"

text \<open>Python exceptions; every one is an instance of \<open>Exception\<close>.\<close>

datatype exn =
    HTTPException nat string
  | Exception string
  | ValueError string
  | UnboundLocalError string
  | AttributeError string
  | SQLAlchemyError string
  | OtherError string

fun show_nat :: "nat \<Rightarrow> string" where
  "show_nat n =
     (if n < 10 then [''0123456789'' ! n]
      else show_nat (n div 10) @ [''0123456789'' ! (n mod 10)])"

declare show_nat.simps [simp del]

text \<open>
  \<open>str(e)\<close>. An \<open>HTTPException\<close> prints as \<open>"<status_code>: <detail>"\<close>; the others
  print their message.
\<close>

fun str_exn :: "exn \<Rightarrow> string" where
  "str_exn (HTTPException code detail) = show_nat code @ '': '' @ detail"
| "str_exn (Exception m) = m"
| "str_exn (ValueError m) = m"
| "str_exn (UnboundLocalError m) = m"
| "str_exn (AttributeError m) = m"
| "str_exn (SQLAlchemyError m) = m"
| "str_exn (OtherError m) = m"

text \<open>
  The status code the client sees: that of an \<open>HTTPException\<close>, and 500 for any other
  exception that leaves an endpoint.
\<close>

fun http_status :: "exn \<Rightarrow> nat" where
  "http_status (HTTPException code detail) = code"
| "http_status e = 500"

text \<open>
  A request to the external model. Each prompt of the service is an f-string over the
  components listed here (with \<open>json.dumps\<close> of the metrics), so a model that is a
  function of the prompt is a function of these components.
\<close>

datatype prompt =
    CompanyNamePrompt string string
  | MetricsPrompt string
  | RecommendationsPrompt json string string
  | RisksPrompt json string
  | InsightsPrompt string string
  | QueryPrompt string json string

type_synonym bytes = "char list"

text \<open>
  Everything outside the repository that the code calls:
  \<^item> \<open>generate\<close>: \<open>self.model.generate_content(prompt)\<close> followed by \<open>response.text\<close>;
    \<open>Inl\<close> when either raises;
  \<^item> \<open>json_loads\<close>: \<open>json.loads\<close>;
  \<^item> \<open>pdf_pages\<close>: \<open>PdfReader\<close> on the bytes and \<open>extract_text()\<close> of each page (an
    empty string for a page without text); \<open>Inl\<close> when the reader raises;
  \<^item> \<open>format_value\<close>: how an f-string prints a decoded JSON value;
  \<^item> \<open>api_key\<close>: whether \<open>GEMINI_API_KEY\<close> is set;
  \<^item> \<open>delay_raises\<close>: the exception of \<open>.delay(...)\<close> when the broker refuses the task;
  \<^item> \<open>utcnow\<close>: \<open>datetime.utcnow()\<close>, kept by its \<open>isoformat()\<close> text;
  \<^item> \<open>elapsed\<close>: the measured \<open>total_seconds()\<close>, a float kept by its text, and
    \<open>elapsed_2f\<close>: the same value printed with \<open>:.2f\<close>;
  \<^item> \<open>celery_status\<close>, \<open>celery_info\<close>: \<open>AsyncResult(task_id).status\<close> and \<open>.info\<close>.
\<close>

record env =
  generate :: "prompt \<Rightarrow> exn + string"
  json_loads :: "string \<Rightarrow> exn + json"
  pdf_pages :: "bytes \<Rightarrow> exn + string list"
  format_value :: "json \<Rightarrow> string"
  api_key :: bool
  delay_raises :: "exn option"
  utcnow :: string
  elapsed :: string
  elapsed_2f :: string
  celery_status :: "string \<Rightarrow> exn + string"
  celery_info :: "string \<Rightarrow> json"

section \<open>The analysis service\<close>

text \<open>\<open>FinancialAnalysisService.__init__\<close>: raises without an API key.\<close>

definition service_init :: "env \<Rightarrow> exn + unit" where
  "service_init e =
     (if api_key e then Inr () else Inl (ValueError ''GEMINI_API_KEY not found''))"

text \<open>
  \<open>_extract_pdf_text\<close>: the text of the pages that have one, each followed by a line
  feed. The temporary file \<open>data/temp_<pid>.pdf\<close> is written and removed within the call.
\<close>

definition extract_pdf_text :: "env \<Rightarrow> bytes \<Rightarrow> exn + string" where
  "extract_pdf_text e file_content =
     (case pdf_pages e file_content of
        Inl err \<Rightarrow> Inl err
      | Inr pages \<Rightarrow> Inr (concat (map (\<lambda>page_text. page_text @ [CHR 0x0A])
                                     (filter (\<lambda>page_text. page_text \<noteq> []) pages))))"

text \<open>
  Each stage is a \<open>try\<close> block followed by a fallback. The body of the block is a
  definition of its own: \<open>Inl\<close> when it raises, \<open>Inr (Some v)\<close> when it returns \<open>v\<close>,
  \<open>Inr None\<close> when control leaves the block without a return. The \<open>except Exception\<close>
  clause logs and falls through to the code after the block.
\<close>

definition extract_company_name_try :: "env \<Rightarrow> string \<Rightarrow> string \<Rightarrow> exn + string option" where
  "extract_company_name_try e text filename =
     (case generate e (CompanyNamePrompt (take 1000 text) filename) of
        Inl err \<Rightarrow> Inl err
      | Inr response_text \<Rightarrow>
          (let company_name = py_strip response_text
           in if length company_name < 100 \<and> company_name \<noteq> []
              then Inr (Some company_name) else Inr None))"

definition company_name_fallback :: "string \<Rightarrow> string" where
  "company_name_fallback filename =
     py_title (py_replace ''_'' '' '' (py_replace ''.pdf'' [] filename))"

definition extract_company_name :: "env \<Rightarrow> string \<Rightarrow> string \<Rightarrow> string" where
  "extract_company_name e text filename =
     (case extract_company_name_try e text filename of
        Inr (Some company_name) \<Rightarrow> company_name
      | Inr None \<Rightarrow> company_name_fallback filename
      | Inl err \<Rightarrow> company_name_fallback filename)"

text \<open>
  The structured stages share one shape: call the model, search the response with the
  stage's regular expression, and decode the match when there is one.
\<close>

definition decode_match :: "env \<Rightarrow> (string \<Rightarrow> string option) \<Rightarrow> prompt \<Rightarrow> exn + json option" where
  "decode_match e search p =
     (case generate e p of
        Inl err \<Rightarrow> Inl err
      | Inr response_text \<Rightarrow>
          (case search response_text of
             None \<Rightarrow> Inr None
           | Some json_match \<Rightarrow>
               (case json_loads e json_match of
                  Inl err \<Rightarrow> Inl err
                | Inr v \<Rightarrow> Inr (Some v))))"

definition extract_financial_metrics_try :: "env \<Rightarrow> string \<Rightarrow> exn + json option" where
  "extract_financial_metrics_try e text =
     decode_match e search_flat_object (MetricsPrompt (take 8000 text))"

definition extract_financial_metrics :: "env \<Rightarrow> string \<Rightarrow> json" where
  "extract_financial_metrics e text =
     (case extract_financial_metrics_try e text of
        Inr (Some metrics) \<Rightarrow> metrics
      | Inr None \<Rightarrow> JObj []
      | Inl err \<Rightarrow> JObj [])"

definition generate_investment_recommendations_try ::
  "env \<Rightarrow> string \<Rightarrow> json \<Rightarrow> string \<Rightarrow> exn + json option" where
  "generate_investment_recommendations_try e text metrics query =
     decode_match e search_array (RecommendationsPrompt metrics query (take 3000 text))"

definition recommendations_fallback :: json where
  "recommendations_fallback =
     JArr [JObj [(''action'', JStr ''monitor''),
                 (''asset'', JStr ''Company stock''),
                 (''rationale'', JStr ''Requires further analysis based on available metrics''),
                 (''risk_level'', JStr ''Medium''),
                 (''confidence'', JNum ''0.5'')]]"

definition generate_investment_recommendations :: "env \<Rightarrow> string \<Rightarrow> json \<Rightarrow> string \<Rightarrow> json" where
  "generate_investment_recommendations e text metrics query =
     (case generate_investment_recommendations_try e text metrics query of
        Inr (Some recommendations) \<Rightarrow> recommendations
      | Inr None \<Rightarrow> recommendations_fallback
      | Inl err \<Rightarrow> recommendations_fallback)"

definition assess_risks_try :: "env \<Rightarrow> string \<Rightarrow> json \<Rightarrow> exn + json option" where
  "assess_risks_try e text metrics =
     decode_match e search_array (RisksPrompt metrics (take 3000 text))"

definition risks_fallback :: json where
  "risks_fallback =
     JArr [JObj [(''category'', JStr ''Market Risk''),
                 (''level'', JStr ''Medium''),
                 (''description'', JStr ''General market volatility affects all investments''),
                 (''mitigation'',
                    JStr ''Diversify portfolio and maintain long-term perspective'')]]"

definition assess_risks :: "env \<Rightarrow> string \<Rightarrow> json \<Rightarrow> json" where
  "assess_risks e text metrics =
     (case assess_risks_try e text metrics of
        Inr (Some risks) \<Rightarrow> risks
      | Inr None \<Rightarrow> risks_fallback
      | Inl err \<Rightarrow> risks_fallback)"

text \<open>\<open>str.split('\n')\<close>: the pieces between line feeds, empty ones included.\<close>

fun split_on :: "char \<Rightarrow> string \<Rightarrow> string list" where
  "split_on d [] = [[]]"
| "split_on d (c # cs) =
     (if c = d then [] # split_on d cs
      else (c # hd (split_on d cs)) # tl (split_on d cs))"

text \<open>
  \<open>_get_market_insights\<close>: without a bracketed match the stripped non-empty lines of
  the response are returned, at most five; this return is inside the \<open>try\<close> block.
\<close>

definition get_market_insights_try :: "env \<Rightarrow> string \<Rightarrow> string \<Rightarrow> exn + json option" where
  "get_market_insights_try e company_name text =
     (case generate e (InsightsPrompt company_name (take 2000 text)) of
        Inl err \<Rightarrow> Inl err
      | Inr response_text \<Rightarrow>
          (case search_array response_text of
             Some json_match \<Rightarrow>
               (case json_loads e json_match of
                  Inl err \<Rightarrow> Inl err
                | Inr insights \<Rightarrow> Inr (Some insights))
           | None \<Rightarrow>
               (let insights = filter (\<lambda>line. line \<noteq> [])
                                 (map py_strip (split_on (CHR 0x0A) response_text))
                in Inr (Some (JArr (map JStr (take 5 insights)))))))"

definition insights_fallback :: json where
  "insights_fallback = JArr [JStr ''Market analysis requires additional data'']"

definition get_market_insights :: "env \<Rightarrow> string \<Rightarrow> string \<Rightarrow> json" where
  "get_market_insights e company_name text =
     (case get_market_insights_try e company_name text of
        Inr (Some insights) \<Rightarrow> insights
      | Inr None \<Rightarrow> insights_fallback
      | Inl err \<Rightarrow> insights_fallback)"

text \<open>
  \<open>_generate_summary\<close> has no \<open>try\<close> block: \<open>metrics.get\<close> raises \<open>AttributeError\<close> on
  a value that is not a dict. The default \<open>'N/A'\<close> is printed as it is.
\<close>

definition indent8 :: string where
  "indent8 = replicate 8 CHR '' ''"

definition generate_summary :: "env \<Rightarrow> json \<Rightarrow> string \<Rightarrow> string \<Rightarrow> exn + string" where
  "generate_summary e metrics company query =
     (if \<not> is_dict metrics then Inl (AttributeError ''object has no attribute get'')
      else
        (let revenue = (case dict_get metrics ''revenue'' of
                          Some v \<Rightarrow> format_value e v | None \<Rightarrow> ''N/A'');
             net_income = (case dict_get metrics ''net_income'' of
                          Some v \<Rightarrow> format_value e v | None \<Rightarrow> ''N/A'')
         in Inr ([CHR 0x0A] @ indent8 @ ''Financial Analysis Summary for '' @ company @ '':''
              @ [CHR 0x0A] @ indent8
              @ [CHR 0x0A] @ indent8 @ ''Key Performance: Revenue of $'' @ revenue
              @ ''M and net income of $'' @ net_income
              @ ''M demonstrate the company'' @ [CHR 0x27]
              @ ''s current financial position.''
              @ [CHR 0x0A] @ indent8
              @ [CHR 0x0A] @ indent8
              @ ''Analysis Focus: This evaluation addresses your query: '' @ [CHR 0x22]
              @ query @ [CHR 0x22]
              @ '' by examining core financial metrics and operational performance.''
              @ [CHR 0x0A] @ indent8
              @ [CHR 0x0A] @ indent8
              @ ''Investment Perspective: Based on available data, the company shows measurable financial indicators that inform strategic investment decisions.''
              @ [CHR 0x0A] @ indent8)))"

definition answer_specific_query :: "env \<Rightarrow> string \<Rightarrow> string \<Rightarrow> json \<Rightarrow> string" where
  "answer_specific_query e text query metrics =
     (case generate e (QueryPrompt query metrics (take 3000 text)) of
        Inr response_text \<Rightarrow> py_strip response_text
      | Inl err \<Rightarrow> ''Unable to provide specific analysis for query: '' @ query)"

text \<open>
  \<open>analyze_document\<close>: the outer \<open>try\<close> logs and re-raises, so an exception of the text
  extraction or of \<open>_generate_summary\<close> leaves the function.
\<close>

definition analyze_document :: "env \<Rightarrow> bytes \<Rightarrow> string \<Rightarrow> string \<Rightarrow> exn + json" where
  "analyze_document e file_content filename query =
     (case extract_pdf_text e file_content of
        Inl err \<Rightarrow> Inl err
      | Inr text \<Rightarrow>
          (let company_name = extract_company_name e text filename;
               financial_metrics = extract_financial_metrics e text;
               investment_recommendations =
                 generate_investment_recommendations e text financial_metrics query;
               risk_assessments = assess_risks e text financial_metrics;
               market_insights = get_market_insights e company_name text
           in case generate_summary e financial_metrics company_name query of
                Inl err \<Rightarrow> Inl err
              | Inr summary \<Rightarrow>
                  Inr (JObj [(''company_name'', JStr company_name),
                             (''financial_metrics'', financial_metrics),
                             (''investment_recommendations'', investment_recommendations),
                             (''risk_assessments'', risk_assessments),
                             (''market_insights'', market_insights),
                             (''summary'', JStr summary),
                             (''query_response'',
                                JStr (answer_specific_query e text query
                                        financial_metrics))])))"

section \<open>The result store, the document store and the queue\<close>

text \<open>
  A row of \<open>analysis_results\<close> (class \<open>AnalysisResult\<close>), without the surrogate key
  \<open>id\<close>. \<open>task_id\<close> is unique, so the table is a map from task ids to rows, and
  \<open>query(AnalysisResult).filter(task_id == t).first()\<close> is the lookup.
\<close>

record analysis_row =
  task_id :: string
  filename :: string
  query :: string
  status :: string
  result :: "json option"
  created_at :: string
  completed_at :: "string option"
  error_message :: "string option"
  processing_time :: "string option"
  company_name :: "json option"

text \<open>The keyword arguments of \<open>analyze_financial_document_task.delay\<close>.\<close>

record work_unit =
  unit_task_id :: string
  unit_file_path :: string
  unit_query :: string
  unit_filename :: string

text \<open>
  A request of \<open>/analyze-fast\<close> that has committed its row and not yet its outcome:
  the local variables the handler still needs.
\<close>

record fast_request =
  fr_task_id :: string
  fr_content :: bytes
  fr_filename :: string
  fr_query :: string

record sys =
  db :: "string \<rightharpoonup> analysis_row"
  files :: "string \<rightharpoonup> bytes"
  queue :: "work_unit list"
  inflight :: "fast_request list"

definition init_sys :: sys where
  "init_sys = \<lparr>db = Map.empty, files = Map.empty, queue = [], inflight = []\<rparr>"

record upload =
  upload_filename :: "string option"
  upload_content :: bytes

text \<open>The constructor call \<open>AnalysisResult(task_id=..., filename=..., query=..., status=...)\<close>.\<close>

definition new_row :: "env \<Rightarrow> string \<Rightarrow> string \<Rightarrow> string \<Rightarrow> string \<Rightarrow> analysis_row" where
  "new_row e tid fname qry st =
     \<lparr>task_id = tid, filename = fname, query = qry, status = st, result = None,
      created_at = utcnow e, completed_at = None, error_message = None,
      processing_time = None, company_name = None\<rparr>"

text \<open>\<open>not file.filename or not file.filename.lower().endswith('.pdf')\<close>, negated.\<close>

definition is_pdf_name :: "string option \<Rightarrow> bool" where
  "is_pdf_name fname_opt =
     (case fname_opt of
        None \<Rightarrow> False
      | Some fname \<Rightarrow> fname \<noteq> [] \<and> py_endswith (py_lower fname) ''.pdf'')"

definition doc_path :: "string \<Rightarrow> string" where
  "doc_path tid = ''data/doc_'' @ tid @ ''.pdf''"

section \<open>The endpoints of main.py\<close>

text \<open>
  \<open>POST /analyze\<close> (\<open>analyze_document\<close> of main.py). The task id is the \<open>uuid4\<close>
  drawn by the call. First the \<open>try\<close> block: validation, the file, the row with its
  commit (which the unique constraint on \<open>task_id\<close> can refuse), and the dispatch.
\<close>

definition queued_response :: "string \<Rightarrow> json" where
  "queued_response tid =
     JObj [(''status'', JStr ''queued''), (''task_id'', JStr tid),
           (''message'', JStr ''Analysis queued for processing''),
           (''estimated_time'', JStr ''2-5 minutes'')]"

definition api_analyze_document_try ::
  "env \<Rightarrow> string \<Rightarrow> upload \<Rightarrow> string \<Rightarrow> sys \<Rightarrow> (exn + json) \<times> sys" where
  "api_analyze_document_try e tid up qry s =
     (if \<not> is_pdf_name (upload_filename up)
      then (Inl (HTTPException 400 ''Only PDF files are supported''), s)
      else
        (let fname = the (upload_filename up);
             file_path = doc_path tid;
             s1 = s\<lparr>files := (files s)(file_path \<mapsto> upload_content up)\<rparr>
         in if db s1 tid \<noteq> None
            then (Inl (SQLAlchemyError ''IntegrityError''), s1)
            else
              (let s2 = s1\<lparr>db := (db s1)(tid \<mapsto> new_row e tid fname (py_strip qry) ''queued'')\<rparr>
               in case delay_raises e of
                    Some err \<Rightarrow> (Inl err, s2)
                  | None \<Rightarrow>
                      (Inr (queued_response tid),
                       s2\<lparr>queue := queue s2 @
                           [\<lparr>unit_task_id = tid, unit_file_path = file_path,
                             unit_query = py_strip qry, unit_filename = fname\<rparr>]\<rparr>))))"

text \<open>The handler \<open>except Exception as e: raise HTTPException(500, str(e))\<close>.\<close>

definition api_analyze_document ::
  "env \<Rightarrow> string \<Rightarrow> upload \<Rightarrow> string \<Rightarrow> sys \<Rightarrow> (exn + json) \<times> sys" where
  "api_analyze_document e tid up qry s =
     (case api_analyze_document_try e tid up qry s of
        (Inl err, s') \<Rightarrow> (Inl (HTTPException 500 (str_exn err)), s')
      | (Inr response, s') \<Rightarrow> (Inr response, s'))"

text \<open>
  \<open>POST /analyze-fast\<close>, in two parts. \<open>fast_create\<close> is the \<open>try\<close> block up to the
  first commit. When it raises before \<open>db_analysis\<close> is assigned (the validation), the
  handler's \<open>db_analysis.status = "failed"\<close> raises \<open>UnboundLocalError\<close>; when the commit
  raises, the handler's own commit raises on the session that was not rolled back.
  Either way nothing is stored.
\<close>

definition fast_create ::
  "env \<Rightarrow> string \<Rightarrow> upload \<Rightarrow> string \<Rightarrow> sys \<Rightarrow> (exn + fast_request) \<times> sys" where
  "fast_create e tid up qry s =
     (if \<not> is_pdf_name (upload_filename up)
      then (Inl (UnboundLocalError ''db_analysis''), s)
      else if db s tid \<noteq> None
      then (Inl (SQLAlchemyError ''PendingRollbackError''), s)
      else
        (let fname = the (upload_filename up)
         in (Inr \<lparr>fr_task_id = tid, fr_content = upload_content up,
                   fr_filename = fname, fr_query = py_strip qry\<rparr>,
             s\<lparr>db := (db s)(tid \<mapsto> new_row e tid fname (py_strip qry) ''processing'')\<rparr>)))"

text \<open>
  The rest of the \<open>try\<close> block and the handler: the analysis, then the write of the
  outcome to the row the handler holds. A row that is gone by then cannot be updated:
  the commit raises and nothing is stored.
\<close>

definition run_analysis :: "env \<Rightarrow> bytes \<Rightarrow> string \<Rightarrow> string \<Rightarrow> exn + json" where
  "run_analysis e file_content fname qry =
     (case service_init e of
        Inl err \<Rightarrow> Inl err
      | Inr u \<Rightarrow> analyze_document e file_content fname qry)"

definition write_completed :: "env \<Rightarrow> json \<Rightarrow> analysis_row \<Rightarrow> analysis_row" where
  "write_completed e res a =
     a\<lparr>result := Some res, status := ''completed'', completed_at := Some (utcnow e),
       processing_time := Some (elapsed e), company_name := dict_get res ''company_name''\<rparr>"

definition write_failed :: "env \<Rightarrow> string \<Rightarrow> analysis_row \<Rightarrow> analysis_row" where
  "write_failed e msg a =
     a\<lparr>status := ''failed'', error_message := Some msg, completed_at := Some (utcnow e)\<rparr>"

definition fast_response :: "env \<Rightarrow> string \<Rightarrow> json \<Rightarrow> json" where
  "fast_response e tid res =
     JObj [(''status'', JStr ''completed''), (''task_id'', JStr tid), (''result'', res),
           (''processing_time'', JStr (elapsed_2f e @ ''s''))]"

definition fast_finish :: "env \<Rightarrow> fast_request \<Rightarrow> sys \<Rightarrow> (exn + json) \<times> sys" where
  "fast_finish e r s =
     (case db s (fr_task_id r) of
        None \<Rightarrow> (Inl (SQLAlchemyError ''StaleDataError''), s)
      | Some a \<Rightarrow>
          (case run_analysis e (fr_content r) (fr_filename r) (fr_query r) of
             Inr res \<Rightarrow>
               (Inr (fast_response e (fr_task_id r) res),
                s\<lparr>db := (db s)(fr_task_id r \<mapsto> write_completed e res a)\<rparr>)
           | Inl err \<Rightarrow>
               (Inl (HTTPException 500 (str_exn err)),
                s\<lparr>db := (db s)(fr_task_id r \<mapsto> write_failed e (str_exn err) a)\<rparr>)))"

definition analyze_fast ::
  "env \<Rightarrow> string \<Rightarrow> upload \<Rightarrow> string \<Rightarrow> sys \<Rightarrow> (exn + json) \<times> sys" where
  "analyze_fast e tid up qry s =
     (case fast_create e tid up qry s of
        (Inl err, s') \<Rightarrow> (Inl err, s')
      | (Inr r, s') \<Rightarrow> fast_finish e r s')"

text \<open>\<open>AnalysisResult.to_dict\<close>, without the entry of the surrogate key.\<close>

definition opt_json :: "('a \<Rightarrow> json) \<Rightarrow> 'a option \<Rightarrow> json" where
  "opt_json f v = (case v of None \<Rightarrow> JNull | Some x \<Rightarrow> f x)"

definition to_dict :: "analysis_row \<Rightarrow> (string \<times> json) list" where
  "to_dict a =
     [(''task_id'', JStr (task_id a)), (''filename'', JStr (filename a)),
      (''query'', JStr (query a)), (''status'', JStr (status a)),
      (''result'', opt_json id (result a)), (''created_at'', JStr (created_at a)),
      (''completed_at'', opt_json JStr (completed_at a)),
      (''error_message'', opt_json JStr (error_message a)),
      (''processing_time'', opt_json JNum (processing_time a)),
      (''company_name'', opt_json id (company_name a))]"

text \<open>
  \<open>GET /analysis/{task_id}\<close>: the \<open>try\<close> block, then the two handlers, of which the
  first re-raises an \<open>HTTPException\<close> as it is.
\<close>

definition get_analysis_status_try :: "env \<Rightarrow> string \<Rightarrow> sys \<Rightarrow> exn + json" where
  "get_analysis_status_try e tid s =
     (case db s tid of
        None \<Rightarrow> Inl (HTTPException 404 ''Analysis not found'')
      | Some a \<Rightarrow>
          (if status a \<in> set [''queued'', ''processing''] then
             (case celery_status e tid of
                Inl err \<Rightarrow> Inr (JObj (to_dict a))
              | Inr st \<Rightarrow>
                  Inr (JObj (to_dict a @ [(''celery_status'', JStr st)]
                        @ (if st = ''PROGRESS'' \<and> is_dict (celery_info e tid)
                           then [(''progress'', celery_info e tid)] else []))))
           else Inr (JObj (to_dict a))))"

definition get_analysis_status :: "env \<Rightarrow> string \<Rightarrow> sys \<Rightarrow> exn + json" where
  "get_analysis_status e tid s =
     (case get_analysis_status_try e tid s of
        Inl (HTTPException code detail) \<Rightarrow> Inl (HTTPException code detail)
      | Inl err \<Rightarrow> Inl (HTTPException 500 (str_exn err))
      | Inr response \<Rightarrow> Inr response)"

text \<open>
  \<open>DELETE /analysis/{task_id}\<close>: the \<open>try\<close> block, then its only handler,
  \<open>except Exception\<close>.
\<close>

definition delete_analysis_try :: "string \<Rightarrow> sys \<Rightarrow> (exn + json) \<times> sys" where
  "delete_analysis_try tid s =
     (case db s tid of
        None \<Rightarrow> (Inl (HTTPException 404 ''Analysis not found''), s)
      | Some a \<Rightarrow>
          (Inr (JObj [(''message'', JStr (''Analysis '' @ tid @ '' deleted successfully''))]),
           s\<lparr>db := (db s)(tid := None)\<rparr>))"

definition delete_analysis :: "string \<Rightarrow> sys \<Rightarrow> (exn + json) \<times> sys" where
  "delete_analysis tid s =
     (case delete_analysis_try tid s of
        (Inl err, s') \<Rightarrow> (Inl (HTTPException 500 (str_exn err)), s')
      | (Inr response, s') \<Rightarrow> (Inr response, s'))"

section \<open>The worker task\<close>

text \<open>
  \<open>analyze_financial_document_task\<close>. The \<open>try\<close> block up to the result of the
  analysis; then the write of the outcome, which happens only \<open>if analysis:\<close>; then the
  \<open>finally\<close> clause, which removes the file. The progress reports (\<open>update_state\<close>) go
  to the queue's own bookkeeping and are not part of the state.
\<close>

definition task_analysis :: "env \<Rightarrow> string \<Rightarrow> string \<Rightarrow> string \<Rightarrow> sys \<Rightarrow> exn + json" where
  "task_analysis e file_path qry fname s =
     (case files s file_path of
        None \<Rightarrow> Inl (Exception (''File not found: '' @ file_path))
      | Some file_content \<Rightarrow> run_analysis e file_content fname qry)"

definition task_result :: "env \<Rightarrow> string \<Rightarrow> json \<Rightarrow> json" where
  "task_result e tid res =
     JObj [(''task_id'', JStr tid), (''status'', JStr ''completed''), (''result'', res),
           (''processing_time'', JNum (elapsed e))]"

definition update_row :: "string \<Rightarrow> (analysis_row \<Rightarrow> analysis_row) \<Rightarrow> sys \<Rightarrow> sys" where
  "update_row tid f s =
     (case db s tid of
        None \<Rightarrow> s
      | Some a \<Rightarrow> s\<lparr>db := (db s)(tid \<mapsto> f a)\<rparr>)"

definition analyze_financial_document_task ::
  "env \<Rightarrow> string \<Rightarrow> string \<Rightarrow> string \<Rightarrow> string \<Rightarrow> sys \<Rightarrow> (exn + json) \<times> sys" where
  "analyze_financial_document_task e tid file_path qry fname s =
     (let (outcome, s1) =
            (case task_analysis e file_path qry fname s of
               Inr res \<Rightarrow> (Inr (task_result e tid res), update_row tid (write_completed e res) s)
             | Inl err \<Rightarrow>
                 (let error_msg = ''Analysis failed: '' @ str_exn err
                  in (Inl (Exception error_msg), update_row tid (write_failed e error_msg) s)))
      in (outcome, s1\<lparr>files := (files s1)(file_path := None)\<rparr>))"

section \<open>DatabaseService.update_analysis_result\<close>



section \<open>The system: operations interleaved\<close>




section \<open>Invariants of the result store\<close>



text \<open>The write of an outcome, as the worker and the fast path do it.\<close>

definition outcome_of ::
  "env \<Rightarrow> (exn \<Rightarrow> string) \<Rightarrow> exn + json \<Rightarrow> analysis_row \<Rightarrow> analysis_row" where
  "outcome_of e msg out a =
     (case out of Inr res \<Rightarrow> write_completed e res a | Inl err \<Rightarrow> write_failed e (msg err) a)"




section \<open>Concrete inputs\<close>

text \<open>
  An environment in which every model call raises, and one in which the broker
  refuses the task as well; an upload named \<open>report.pdf\<close>.
\<close>

definition example_env :: env where
  "example_env =
     \<lparr>generate = (\<lambda>p. Inl (OtherError ''model unavailable'')),
      json_loads = (\<lambda>t. Inl (ValueError ''Expecting value'')),
      pdf_pages = (\<lambda>b. Inr [''Annual report'', [], ''Revenue'']),
      format_value = (\<lambda>v. ''0''),
      api_key = True,
      delay_raises = None,
      utcnow = ''2024-01-01T00:00:00'',
      elapsed = ''1.5'',
      elapsed_2f = ''1.50'',
      celery_status = (\<lambda>t. Inr ''PENDING''),
      celery_info = (\<lambda>t. JNull)\<rparr>"

definition broker_down_env :: env where
  "broker_down_env = example_env\<lparr>delay_raises := Some (OtherError ''broker unreachable'')\<rparr>"

definition example_upload :: upload where
  "example_upload = \<lparr>upload_filename = Some ''report.pdf'', upload_content = ''%PDF-1.4''\<rparr>"

definition text_upload :: upload where
  "text_upload = \<lparr>upload_filename = Some ''notes.txt'', upload_content = ''hello''\<rparr>"



text \<open>
  A \<open>try\<close> block failed when it raised or ended without a return: the code after it
  supplies the fallback.
\<close>

definition stage_failed :: "exn + 'a option \<Rightarrow> bool" where
  "stage_failed x = (case x of Inr (Some v) \<Rightarrow> False | Inr None \<Rightarrow> True | Inl err \<Rightarrow> True)"

text \<open>
  Two environments with the same deterministic model: the same model function, decoder,
  PDF reader, value printer and credential; clock and broker may differ.
\<close>

definition same_model :: "env \<Rightarrow> env \<Rightarrow> bool" where
  "same_model e1 e2 =
     (generate e1 = generate e2 \<and> json_loads e1 = json_loads e2 \<and> pdf_pages e1 = pdf_pages e2
      \<and> format_value e1 = format_value e2 \<and> api_key e1 = api_key e2)"



text \<open>
  What the analysis returns in \<open>example_env\<close> for a file named \<open>report.pdf\<close>: every
  stage at its fallback. \<open>later_env\<close> is the same model read at a later time.
\<close>

definition example_summary :: "string \<Rightarrow> string" where
  "example_summary q =
     (case generate_summary example_env (JObj []) ''Report'' q of
        Inr sm \<Rightarrow> sm | Inl err \<Rightarrow> [])"

definition example_payload :: "string \<Rightarrow> json" where
  "example_payload q =
     JObj [(''company_name'', JStr ''Report''),
           (''financial_metrics'', JObj []),
           (''investment_recommendations'', recommendations_fallback),
           (''risk_assessments'', risks_fallback),
           (''market_insights'', insights_fallback),
           (''summary'', JStr (example_summary q)),
           (''query_response'', JStr (''Unable to provide specific analysis for query: '' @ q))]"

definition later_env :: env where
  "later_env = example_env\<lparr>utcnow := ''2024-01-01T00:05:00'', elapsed := ''2.5'',
     elapsed_2f := ''2.50''\<rparr>"



section \<open>Evaluation at the concrete inputs\<close>

lemma is_pdf_name_report: "is_pdf_name (Some ''report.pdf'')"
  by (simp add: is_pdf_name_def py_endswith_def py_lower_def py_lower_char_def
      ascii_lowercase_def ascii_uppercase_def)

lemma not_pdf_name_notes: "\<not> is_pdf_name (Some ''notes.txt'')"
  by (simp add: is_pdf_name_def py_endswith_def py_lower_def py_lower_char_def
      ascii_lowercase_def ascii_uppercase_def)

lemma py_strip_q: "py_strip ''q'' = ''q''"
  by (simp add: py_strip_def is_space_def)

lemma show_nat_400: "show_nat 400 = ''400''"
  by (simp add: show_nat.simps)

lemma show_nat_404: "show_nat 404 = ''404''"
  by (simp add: show_nat.simps)

lemma example_text: "extract_pdf_text example_env b = Inr (''Annual report'' @ [CHR 0x0A] @ ''Revenue'' @ [CHR 0x0A])"
  by (simp add: extract_pdf_text_def example_env_def)


section \<open>The endpoints: rejection, dispatch failure, deletion\<close>

text \<open>
  C10. For every upload to the queued-analysis endpoint whose filename is missing or
  does not end, case-insensitively, in \<open>.pdf\<close>: the \<open>try\<close> block raises the 400
  validation error before any file or row is written, the endpoint's own generic
  handler catches it, and the caller gets a 500 whose detail is the text of the 400
  error; the state is unchanged.
\<close>

theorem invalid_upload_rejected_as_500:
  assumes "\<not> is_pdf_name (upload_filename up)"
  shows "api_analyze_document_try e tid up q s
           = (Inl (HTTPException 400 ''Only PDF files are supported''), s)
       \<and> api_analyze_document e tid up q s
           = (Inl (HTTPException 500 ''400: Only PDF files are supported''), s)
       \<and> http_status (HTTPException 500 ''400: Only PDF files are supported'') = 500"
  using assms
  by (simp add: api_analyze_document_def api_analyze_document_try_def show_nat_400)

theorem invalid_upload_rejected_as_500_witness:
  "\<not> is_pdf_name (upload_filename text_upload)
   \<and> api_analyze_document example_env ''job-1'' text_upload ''q'' init_sys
       = (Inl (HTTPException 500 ''400: Only PDF files are supported''), init_sys)
   \<and> \<not> is_pdf_name (upload_filename (text_upload\<lparr>upload_filename := None\<rparr>))
   \<and> api_analyze_document example_env ''job-1'' (text_upload\<lparr>upload_filename := None\<rparr>) ''q''
         init_sys
       = (Inl (HTTPException 500 ''400: Only PDF files are supported''), init_sys)"
proof -
  have a: "\<not> is_pdf_name (upload_filename text_upload)"
    by (simp add: text_upload_def not_pdf_name_notes)
  have b: "\<not> is_pdf_name (upload_filename (text_upload\<lparr>upload_filename := None\<rparr>))"
    by (simp add: is_pdf_name_def)
  from a b
    invalid_upload_rejected_as_500 [OF a, of example_env "''job-1''" "''q''" init_sys]
    invalid_upload_rejected_as_500 [OF b, of example_env "''job-1''" "''q''" init_sys]
  show ?thesis by simp
qed

text \<open>
  C7, evaluated at a task id that has no row: the 404 raised in the \<open>try\<close> block of
  \<open>delete_analysis\<close> is caught by its \<open>except Exception\<close> handler, and the caller gets a
  500. The status query on the same id answers 404.
\<close>

theorem delete_missing_job_gives_500:
  "delete_analysis ''no-such-job'' init_sys
     = (Inl (HTTPException 500 ''404: Analysis not found''), init_sys)
   \<and> http_status (HTTPException 500 ''404: Analysis not found'') = 500
   \<and> get_analysis_status example_env ''no-such-job'' init_sys
       = Inl (HTTPException 404 ''Analysis not found'')"
  by (simp add: delete_analysis_def delete_analysis_try_def init_sys_def show_nat_404
      get_analysis_status_def get_analysis_status_try_def)

text \<open>
  The other half of C7 holds: after the delete of an existing row the status query on
  the same id answers 404.
\<close>

lemma delete_then_status_404:
  assumes "db s tid = Some a"
  shows "fst (delete_analysis tid s)
           = Inr (JObj [(''message'', JStr (''Analysis '' @ tid @ '' deleted successfully''))])
       \<and> get_analysis_status e tid (snd (delete_analysis tid s))
           = Inl (HTTPException 404 ''Analysis not found'')"
  using assms
  by (simp add: delete_analysis_def delete_analysis_try_def get_analysis_status_def
      get_analysis_status_try_def)

text \<open>
  C8, evaluated at a submission whose dispatch the broker refuses: the caller gets a
  500, and the row that was committed before the dispatch is left with status
  \<open>queued\<close>; no unit is in the queue.
\<close>

theorem dispatch_failure_leaves_row_queued:
  "fst (api_analyze_document broker_down_env ''job-1'' example_upload ''q'' init_sys)
     = Inl (HTTPException 500 ''broker unreachable'')
   \<and> map_option status
        (db (snd (api_analyze_document broker_down_env ''job-1'' example_upload ''q'' init_sys))
           ''job-1'') = Some ''queued''
   \<and> queue (snd (api_analyze_document broker_down_env ''job-1'' example_upload ''q'' init_sys))
       = []"
  by (simp add: api_analyze_document_def api_analyze_document_try_def broker_down_env_def
      example_env_def example_upload_def is_pdf_name_report init_sys_def Let_def new_row_def)

section \<open>The invariant is kept by every step\<close>







lemma fast_finish_effect:
  "queue (snd (fast_finish e r s)) = queue s \<and> inflight (snd (fast_finish e r s)) = inflight s
   \<and> files (snd (fast_finish e r s)) = files s
   \<and> db (snd (fast_finish e r s)) =
       (case db s (fr_task_id r) of
          None \<Rightarrow> db s
        | Some a \<Rightarrow> (db s)(fr_task_id r \<mapsto>
            outcome_of e str_exn (run_analysis e (fr_content r) (fr_filename r) (fr_query r)) a))"
  by (simp add: fast_finish_def outcome_of_def split: option.splits sum.splits)

lemma task_effect:
  "queue (snd (analyze_financial_document_task e tid fp q fn s)) = queue s
   \<and> inflight (snd (analyze_financial_document_task e tid fp q fn s)) = inflight s
   \<and> files (snd (analyze_financial_document_task e tid fp q fn s)) = (files s)(fp := None)
   \<and> db (snd (analyze_financial_document_task e tid fp q fn s)) =
       (case db s tid of
          None \<Rightarrow> db s
        | Some a \<Rightarrow> (db s)(tid \<mapsto>
            outcome_of e (\<lambda>err. ''Analysis failed: '' @ str_exn err)
              (task_analysis e fp q fn s) a))"
  by (simp add: analyze_financial_document_task_def update_row_def outcome_of_def Let_def
      split: option.splits sum.splits)
















section \<open>Facts about the analysis service\<close>

lemma search_flat_object_head:
  "search_flat_object t = Some m \<Longrightarrow> m \<noteq> [] \<and> hd m = CHR ''{''"
  by (induction t) (auto split: option.splits list.splits if_splits)

lemma metrics_is_dict:
  assumes "\<forall>m v. json_loads e m = Inr v \<longrightarrow> m \<noteq> [] \<longrightarrow> hd m = CHR ''{'' \<longrightarrow> is_dict v"
  shows "is_dict (extract_financial_metrics e t)"
proof (cases "extract_financial_metrics_try e t")
  case (Inl err)
  then show ?thesis by (simp add: extract_financial_metrics_def)
next
  case (Inr r)
  show ?thesis
  proof (cases r)
    case None
    with Inr show ?thesis by (simp add: extract_financial_metrics_def)
  next
    case (Some v)
    with Inr obtain rt m where "search_flat_object rt = Some m" "json_loads e m = Inr v"
      by (auto simp: extract_financial_metrics_try_def decode_match_def
          split: sum.splits option.splits)
    with assms search_flat_object_head have "is_dict v" by blast
    with Inr Some show ?thesis by (simp add: extract_financial_metrics_def)
  qed
qed

lemma summary_returns:
  "is_dict m \<Longrightarrow> \<exists>sm. generate_summary e m c q = Inr sm"
  by (simp add: generate_summary_def Let_def)

lemma analyze_document_shape:
  assumes "extract_pdf_text e b = Inr t"
    and "generate_summary e (extract_financial_metrics e t) (extract_company_name e t f) q = Inr sm"
  shows "analyze_document e b f q =
     Inr (JObj [(''company_name'', JStr (extract_company_name e t f)),
                (''financial_metrics'', extract_financial_metrics e t),
                (''investment_recommendations'',
                   generate_investment_recommendations e t (extract_financial_metrics e t) q),
                (''risk_assessments'', assess_risks e t (extract_financial_metrics e t)),
                (''market_insights'', get_market_insights e (extract_company_name e t f) t),
                (''summary'', JStr sm),
                (''query_response'',
                   JStr (answer_specific_query e t q (extract_financial_metrics e t)))])"
  using assms by (simp add: analyze_document_def Let_def)

lemma example_loads:
  "\<forall>m v. json_loads example_env m = Inr v \<longrightarrow> m \<noteq> [] \<longrightarrow> hd m = CHR ''{'' \<longrightarrow> is_dict v"
  by (simp add: example_env_def)

lemma example_run: "\<exists>res. run_analysis example_env b f q = Inr res"
proof -
  from summary_returns[OF metrics_is_dict[OF example_loads]]
  obtain sm where "generate_summary example_env
      (extract_financial_metrics example_env (''Annual report'' @ [CHR 0x0A] @ ''Revenue'' @ [CHR 0x0A]))
      (extract_company_name example_env (''Annual report'' @ [CHR 0x0A] @ ''Revenue'' @ [CHR 0x0A]) f) q = Inr sm"
    by blast
  from analyze_document_shape[OF example_text this]
  show ?thesis by (simp add: run_analysis_def service_init_def example_env_def)
qed

lemma decode_match_cong:
  "same_model e1 e2 \<Longrightarrow> decode_match e1 srch p = decode_match e2 srch p"
  by (simp add: same_model_def decode_match_def split: sum.splits option.splits)

lemma stage_cong:
  assumes "same_model e1 e2"
  shows "extract_pdf_text e1 b = extract_pdf_text e2 b"
    and "extract_company_name e1 t f = extract_company_name e2 t f"
    and "extract_financial_metrics e1 t = extract_financial_metrics e2 t"
    and "generate_investment_recommendations e1 t m q = generate_investment_recommendations e2 t m q"
    and "assess_risks e1 t m = assess_risks e2 t m"
    and "get_market_insights e1 c t = get_market_insights e2 c t"
    and "generate_summary e1 m c q = generate_summary e2 m c q"
    and "answer_specific_query e1 t q m = answer_specific_query e2 t q m"
proof -
  from assms have g: "generate e1 = generate e2" and j: "json_loads e1 = json_loads e2"
    and p: "pdf_pages e1 = pdf_pages e2" and fv: "format_value e1 = format_value e2"
    by (simp_all add: same_model_def)
  show "extract_pdf_text e1 b = extract_pdf_text e2 b"
    unfolding extract_pdf_text_def p by (rule refl)
  show "extract_company_name e1 t f = extract_company_name e2 t f"
    unfolding extract_company_name_def extract_company_name_try_def g by (rule refl)
  show "extract_financial_metrics e1 t = extract_financial_metrics e2 t"
    unfolding extract_financial_metrics_def extract_financial_metrics_try_def
      decode_match_cong[OF assms] by (rule refl)
  show "generate_investment_recommendations e1 t m q = generate_investment_recommendations e2 t m q"
    unfolding generate_investment_recommendations_def generate_investment_recommendations_try_def
      decode_match_cong[OF assms] by (rule refl)
  show "assess_risks e1 t m = assess_risks e2 t m"
    unfolding assess_risks_def assess_risks_try_def decode_match_cong[OF assms] by (rule refl)
  show "get_market_insights e1 c t = get_market_insights e2 c t"
    unfolding get_market_insights_def get_market_insights_try_def g j by (rule refl)
  show "generate_summary e1 m c q = generate_summary e2 m c q"
    unfolding generate_summary_def fv by (rule refl)
  show "answer_specific_query e1 t q m = answer_specific_query e2 t q m"
    unfolding answer_specific_query_def g by (rule refl)
qed

lemma analyze_document_cong:
  assumes "same_model e1 e2"
  shows "analyze_document e1 b f q = analyze_document e2 b f q"
  unfolding analyze_document_def stage_cong[OF assms] by (rule refl)

lemma run_analysis_cong:
  "same_model e1 e2 \<Longrightarrow> run_analysis e1 b f q = run_analysis e2 b f q"
  by (simp add: run_analysis_def service_init_def analyze_document_cong)
     (simp add: same_model_def)


lemma result_outcome_of:
  "result (outcome_of e msg out a) = (case out of Inr res \<Rightarrow> Some res | Inl err \<Rightarrow> result a)"
  by (cases out) (simp_all add: outcome_of_def write_completed_def write_failed_def)




section \<open>Status and payload of a job record\<close>




section \<open>The worker when the row is gone\<close>


section \<open>The example job, step by step\<close>

lemma example_generate: "generate example_env p = Inl (OtherError ''model unavailable'')"
  by (simp add: example_env_def)

lemma fallback_report: "company_name_fallback ''report.pdf'' = ''Report''"
  by (simp add: company_name_fallback_def py_title_def py_upper_char_def py_lower_char_def
      is_cased_def ascii_lowercase_def ascii_uppercase_def)

lemma example_stages_failed:
  "stage_failed (extract_company_name_try example_env t f)"
  "stage_failed (extract_financial_metrics_try example_env t)"
  "stage_failed (generate_investment_recommendations_try example_env t m q)"
  "stage_failed (assess_risks_try example_env t m)"
  "stage_failed (get_market_insights_try example_env c t)"
  by (simp_all add: stage_failed_def extract_company_name_try_def
      extract_financial_metrics_try_def generate_investment_recommendations_try_def
      assess_risks_try_def get_market_insights_try_def decode_match_def example_generate)

lemma example_stages:
  "extract_company_name example_env t ''report.pdf'' = ''Report''"
  "extract_financial_metrics example_env t = JObj []"
  "generate_investment_recommendations example_env t m q = recommendations_fallback"
  "assess_risks example_env t m = risks_fallback"
  "get_market_insights example_env c t = insights_fallback"
  "answer_specific_query example_env t q m
     = ''Unable to provide specific analysis for query: '' @ q"
  by (simp_all add: extract_company_name_def extract_company_name_try_def
      extract_financial_metrics_def extract_financial_metrics_try_def
      generate_investment_recommendations_def generate_investment_recommendations_try_def
      assess_risks_def assess_risks_try_def get_market_insights_def get_market_insights_try_def
      answer_specific_query_def decode_match_def example_generate fallback_report)

lemma example_summary_eq:
  "generate_summary example_env (JObj []) ''Report'' q = Inr (example_summary q)"
  by (simp add: example_summary_def generate_summary_def)

lemma example_analysis:
  "analyze_document example_env b ''report.pdf'' q = Inr (example_payload q)"
proof -
  have "generate_summary example_env (extract_financial_metrics example_env
        (''Annual report'' @ [CHR 0x0A] @ ''Revenue'' @ [CHR 0x0A]))
      (extract_company_name example_env (''Annual report'' @ [CHR 0x0A] @ ''Revenue'' @ [CHR 0x0A])
        ''report.pdf'') q = Inr (example_summary q)"
    unfolding example_stages by (rule example_summary_eq)
  from analyze_document_shape[OF example_text this]
  show ?thesis unfolding example_stages example_payload_def .
qed

lemma example_run_eq:
  "run_analysis example_env b ''report.pdf'' q = Inr (example_payload q)"
  by (simp add: run_analysis_def service_init_def example_analysis) (simp add: example_env_def)










section \<open>The payload is always populated\<close>

lemma stage_failed_iff:
  "stage_failed x = (\<forall>v. x \<noteq> Inr (Some v))"
  by (auto simp: stage_failed_def split: sum.splits option.splits)

lemma decode_match_failed_iff:
  "stage_failed (decode_match e srch p) =
     ((\<exists>err. generate e p = Inl err)
      \<or> (\<exists>rt. generate e p = Inr rt \<and>
            (srch rt = None \<or> (\<exists>m err. srch rt = Some m \<and> json_loads e m = Inl err))))"
  by (auto simp: stage_failed_def decode_match_def split: sum.splits option.splits)


lemma stage_fallbacks:
  "stage_failed (extract_company_name_try e t f)
     \<Longrightarrow> extract_company_name e t f = company_name_fallback f"
  "stage_failed (extract_financial_metrics_try e t) \<Longrightarrow> extract_financial_metrics e t = JObj []"
  "stage_failed (generate_investment_recommendations_try e t m q)
     \<Longrightarrow> generate_investment_recommendations e t m q = recommendations_fallback"
  "stage_failed (assess_risks_try e t m) \<Longrightarrow> assess_risks e t m = risks_fallback"
  "stage_failed (get_market_insights_try e c t) \<Longrightarrow> get_market_insights e c t = insights_fallback"
  by (simp_all add: stage_failed_def extract_company_name_def extract_financial_metrics_def
      generate_investment_recommendations_def assess_risks_def get_market_insights_def
      split: sum.splits option.splits)

lemma query_fallback:
  "generate e (QueryPrompt q m (take 3000 t)) = Inl err
     \<Longrightarrow> answer_specific_query e t q m = ''Unable to provide specific analysis for query: '' @ q"
  by (simp add: answer_specific_query_def)

text \<open>
  C3. For every transcript (the text extraction returned), filename, query and every
  outcome of the model calls and of the decoder: \<open>analyze_document\<close> returns, without
  raising, a dict with exactly the seven keys \<open>company_name\<close>, \<open>financial_metrics\<close>,
  \<open>investment_recommendations\<close>, \<open>risk_assessments\<close>, \<open>market_insights\<close>, \<open>summary\<close>,
  \<open>query_response\<close>; every stage whose \<open>try\<close> block failed (the model call raised, the
  output had no match or did not decode, the name failed the length check) holds its
  fallback value. The decoder is any function that, like \<open>json.loads\<close>, returns a dict
  for a text that starts with an opening brace.
\<close>

theorem analyze_document_always_populated:
  assumes pdf: "extract_pdf_text e b = Inr t"
    and loads: "\<forall>m v. json_loads e m = Inr v \<longrightarrow> m \<noteq> [] \<longrightarrow> hd m = CHR ''{'' \<longrightarrow> is_dict v"
  shows "\<exists>sm.
     analyze_document e b f q =
       Inr (JObj [(''company_name'', JStr (extract_company_name e t f)),
                  (''financial_metrics'', extract_financial_metrics e t),
                  (''investment_recommendations'',
                     generate_investment_recommendations e t (extract_financial_metrics e t) q),
                  (''risk_assessments'', assess_risks e t (extract_financial_metrics e t)),
                  (''market_insights'', get_market_insights e (extract_company_name e t f) t),
                  (''summary'', JStr sm),
                  (''query_response'',
                     JStr (answer_specific_query e t q (extract_financial_metrics e t)))])
     \<and> (stage_failed (extract_company_name_try e t f)
          \<longrightarrow> extract_company_name e t f = company_name_fallback f)
     \<and> (stage_failed (extract_financial_metrics_try e t)
          \<longrightarrow> extract_financial_metrics e t = JObj [])
     \<and> (stage_failed (generate_investment_recommendations_try e t (extract_financial_metrics e t) q)
          \<longrightarrow> generate_investment_recommendations e t (extract_financial_metrics e t) q
                = recommendations_fallback)
     \<and> (stage_failed (assess_risks_try e t (extract_financial_metrics e t))
          \<longrightarrow> assess_risks e t (extract_financial_metrics e t) = risks_fallback)
     \<and> (stage_failed (get_market_insights_try e (extract_company_name e t f) t)
          \<longrightarrow> get_market_insights e (extract_company_name e t f) t = insights_fallback)
     \<and> ((\<exists>err. generate e (QueryPrompt q (extract_financial_metrics e t) (take 3000 t)) = Inl err)
          \<longrightarrow> answer_specific_query e t q (extract_financial_metrics e t)
                = ''Unable to provide specific analysis for query: '' @ q)"
proof -
  from summary_returns[OF metrics_is_dict[OF loads]]
  obtain sm where sm: "generate_summary e (extract_financial_metrics e t)
      (extract_company_name e t f) q = Inr sm"
    by blast
  note shape = analyze_document_shape[OF pdf sm]
  show ?thesis
  proof (intro exI[of _ sm] conjI impI)
    show "analyze_document e b f q =
       Inr (JObj [(''company_name'', JStr (extract_company_name e t f)),
                  (''financial_metrics'', extract_financial_metrics e t),
                  (''investment_recommendations'',
                     generate_investment_recommendations e t (extract_financial_metrics e t) q),
                  (''risk_assessments'', assess_risks e t (extract_financial_metrics e t)),
                  (''market_insights'', get_market_insights e (extract_company_name e t f) t),
                  (''summary'', JStr sm),
                  (''query_response'',
                     JStr (answer_specific_query e t q (extract_financial_metrics e t)))])"
      by (rule shape)
  next
    assume "\<exists>err. generate e (QueryPrompt q (extract_financial_metrics e t) (take 3000 t)) = Inl err"
    then show "answer_specific_query e t q (extract_financial_metrics e t)
                = ''Unable to provide specific analysis for query: '' @ q"
      using query_fallback by blast
  qed (rule stage_fallbacks, assumption)+
qed

text \<open>C3 at the environment in which every model call raises.\<close>

theorem analyze_document_always_populated_witness:
  "extract_pdf_text example_env ''%PDF-1.4''
     = Inr (''Annual report'' @ [CHR 0x0A] @ ''Revenue'' @ [CHR 0x0A])
   \<and> stage_failed (extract_company_name_try example_env
        (''Annual report'' @ [CHR 0x0A] @ ''Revenue'' @ [CHR 0x0A]) ''report.pdf'')
   \<and> stage_failed (extract_financial_metrics_try example_env
        (''Annual report'' @ [CHR 0x0A] @ ''Revenue'' @ [CHR 0x0A]))
   \<and> analyze_document example_env ''%PDF-1.4'' ''report.pdf'' ''q'' = Inr (example_payload ''q'')"
proof -
  let ?t = "''Annual report'' @ [CHR 0x0A] @ ''Revenue'' @ [CHR 0x0A]"
  from analyze_document_always_populated[OF example_text example_loads,
      of "''%PDF-1.4''" "''report.pdf''" "''q''"]
  obtain sm where a: "analyze_document example_env ''%PDF-1.4'' ''report.pdf'' ''q'' =
       Inr (JObj [(''company_name'', JStr (extract_company_name example_env ?t ''report.pdf'')),
                  (''financial_metrics'', extract_financial_metrics example_env ?t),
                  (''investment_recommendations'',
                     generate_investment_recommendations example_env ?t
                       (extract_financial_metrics example_env ?t) ''q''),
                  (''risk_assessments'', assess_risks example_env ?t
                       (extract_financial_metrics example_env ?t)),
                  (''market_insights'', get_market_insights example_env
                       (extract_company_name example_env ?t ''report.pdf'') ?t),
                  (''summary'', JStr sm),
                  (''query_response'',
                     JStr (answer_specific_query example_env ?t ''q''
                       (extract_financial_metrics example_env ?t)))])"
    and c: "stage_failed (extract_company_name_try example_env ?t ''report.pdf'')
          \<longrightarrow> extract_company_name example_env ?t ''report.pdf''
              = company_name_fallback ''report.pdf''"
    by blast
  from a example_analysis[of "''%PDF-1.4''" "''q''"]
  have "analyze_document example_env ''%PDF-1.4'' ''report.pdf'' ''q'' = Inr (example_payload ''q'')"
    by simp
  with example_text example_stages_failed(1,2) show ?thesis by blast
qed

section \<open>The fast path and the queued path\<close>

lemma submit_ok_state:
  assumes n: "db s tid = None" and ok: "is_pdf_name (upload_filename up)"
    and disp: "delay_raises e = None"
  shows "snd (api_analyze_document e tid up q s) =
     s\<lparr>files := (files s)(doc_path tid \<mapsto> upload_content up),
       db := (db s)(tid \<mapsto> new_row e tid (the (upload_filename up)) (py_strip q) ''queued''),
       queue := queue s @ [\<lparr>unit_task_id = tid, unit_file_path = doc_path tid,
                             unit_query = py_strip q,
                             unit_filename = the (upload_filename up)\<rparr>]\<rparr>"
  using assms
  by (simp add: api_analyze_document_def api_analyze_document_try_def Let_def)

lemma fast_ok_db:
  assumes n: "db s tid = None" and ok: "is_pdf_name (upload_filename up)"
  shows "db (snd (analyze_fast e tid up q s)) =
     (db s)(tid \<mapsto> outcome_of e str_exn
        (run_analysis e (upload_content up) (the (upload_filename up)) (py_strip q))
        (new_row e tid (the (upload_filename up)) (py_strip q) ''processing''))"
proof -
  let ?r = "\<lparr>fr_task_id = tid, fr_content = upload_content up,
             fr_filename = the (upload_filename up), fr_query = py_strip q\<rparr>"
  let ?s1 = "s\<lparr>db := (db s)(tid \<mapsto> new_row e tid (the (upload_filename up)) (py_strip q)
               ''processing'')\<rparr>"
  have c: "fast_create e tid up q s = (Inr ?r, ?s1)"
    using assms by (simp add: fast_create_def Let_def)
  have "analyze_fast e tid up q s = fast_finish e ?r ?s1"
    by (simp add: analyze_fast_def c)
  with fast_finish_effect[of e ?r ?s1] show ?thesis by simp
qed

text \<open>
  C4. For the same file bytes, query and filename, a fresh task id and the same
  deterministic model: submit enqueues a unit with the file path, the stripped query
  and the filename; the payload that the worker run of that unit stores in the row is
  the payload that the fast path stores, namely what \<open>analyze_document\<close> returns on the
  uploaded bytes (and no payload in either row when the analysis raises).
\<close>

theorem fast_and_queued_store_same_payload:
  assumes n: "db s tid = None" and ok: "is_pdf_name (upload_filename up)"
    and disp: "delay_raises e = None" and sm: "same_model ew ef"
  shows "queue (snd (api_analyze_document e tid up q s))
       = queue s @ [\<lparr>unit_task_id = tid, unit_file_path = doc_path tid,
                       unit_query = py_strip q, unit_filename = the (upload_filename up)\<rparr>]
     \<and> map_option result
         (db (snd (analyze_financial_document_task ew tid (doc_path tid) (py_strip q)
                     (the (upload_filename up)) (snd (api_analyze_document e tid up q s)))) tid)
       = map_option result (db (snd (analyze_fast ef tid up q s)) tid)
     \<and> map_option result (db (snd (analyze_fast ef tid up q s)) tid)
       = Some (case run_analysis ef (upload_content up) (the (upload_filename up)) (py_strip q) of
                 Inr res \<Rightarrow> Some res | Inl err \<Rightarrow> None)"
proof -
  let ?f = "the (upload_filename up)"
  let ?sq = "snd (api_analyze_document e tid up q s)"
  note sq = submit_ok_state[OF n ok disp, of q]
  have ta: "task_analysis ew (doc_path tid) (py_strip q) ?f ?sq
      = run_analysis ef (upload_content up) ?f (py_strip q)"
    unfolding sq by (simp add: task_analysis_def run_analysis_cong[OF sm])
  have dq: "db ?sq tid = Some (new_row e tid ?f (py_strip q) ''queued'')"
    unfolding sq by simp
  from task_effect[of ew tid "doc_path tid" "py_strip q" ?f ?sq]
  have w: "db (snd (analyze_financial_document_task ew tid (doc_path tid) (py_strip q) ?f ?sq)) tid
      = Some (outcome_of ew (\<lambda>err. ''Analysis failed: '' @ str_exn err)
          (run_analysis ef (upload_content up) ?f (py_strip q))
          (new_row e tid ?f (py_strip q) ''queued''))"
    unfolding dq ta by simp
  have fdb: "db (snd (analyze_fast ef tid up q s)) tid
      = Some (outcome_of ef str_exn (run_analysis ef (upload_content up) ?f (py_strip q))
          (new_row ef tid ?f (py_strip q) ''processing''))"
    unfolding fast_ok_db[OF n ok] by simp
  show ?thesis
    unfolding w fdb
    by (simp add: sq result_outcome_of new_row_def split: sum.splits)
qed

text \<open>C4 at the example upload, the fast path running at a later time.\<close>

theorem fast_and_queued_store_same_payload_witness:
  "db init_sys ''job-1'' = None \<and> is_pdf_name (upload_filename example_upload)
   \<and> delay_raises example_env = None \<and> same_model example_env later_env
   \<and> map_option result
       (db (snd (analyze_financial_document_task example_env ''job-1'' (doc_path ''job-1'') ''q''
                   ''report.pdf''
                   (snd (api_analyze_document example_env ''job-1'' example_upload ''q''
                           init_sys)))) ''job-1'')
     = Some (Some (example_payload ''q''))
   \<and> map_option result (db (snd (analyze_fast later_env ''job-1'' example_upload ''q'' init_sys))
        ''job-1'')
     = Some (Some (example_payload ''q''))"
proof -
  have a: "db init_sys ''job-1'' = None" by (simp add: init_sys_def)
  have b: "is_pdf_name (upload_filename example_upload)"
    by (simp add: example_upload_def is_pdf_name_report)
  have c: "delay_raises example_env = None" by (simp add: example_env_def)
  have d: "same_model example_env later_env" by (simp add: same_model_def later_env_def)
  have r: "run_analysis later_env (upload_content example_upload)
      (the (upload_filename example_upload)) (py_strip ''q'') = Inr (example_payload ''q'')"
    unfolding run_analysis_cong[OF d, symmetric]
    by (simp add: example_upload_def py_strip_q example_run_eq)
  from fast_and_queued_store_same_payload[OF a b c d, of "''q''"] a b c d
  show ?thesis
    unfolding r by (simp add: example_upload_def py_strip_q)
qed


section \<open>What the structured calls select\<close>

lemma match_flat_object_iff:
  "match_flat_object r = Some m \<longleftrightarrow>
     (\<exists>body post. r = CHR ''{'' # body @ CHR ''}'' # post \<and> (\<forall>c \<in> set body. \<not> is_brace c)
        \<and> m = CHR ''{'' # body @ [CHR ''}''])"
proof
  assume a: "match_flat_object r = Some m"
  then obtain cs where r: "r = CHR ''{'' # cs"
    by (cases r) (auto split: if_splits)
  let ?P = "\<lambda>x. \<not> is_brace x"
  from a r obtain rest where d: "dropWhile ?P cs = CHR ''}'' # rest"
    and m: "m = CHR ''{'' # takeWhile ?P cs @ [CHR ''}'']"
    by (auto split: list.splits if_splits)
  have "cs = takeWhile ?P cs @ dropWhile ?P cs" by simp
  with d have "cs = takeWhile ?P cs @ CHR ''}'' # rest" by simp
  moreover have "\<forall>c \<in> set (takeWhile ?P cs). \<not> is_brace c"
    by (auto dest: set_takeWhileD)
  ultimately show "\<exists>body post. r = CHR ''{'' # body @ CHR ''}'' # post
        \<and> (\<forall>c \<in> set body. \<not> is_brace c) \<and> m = CHR ''{'' # body @ [CHR ''}'']"
    using r m by blast
next
  assume "\<exists>body post. r = CHR ''{'' # body @ CHR ''}'' # post \<and> (\<forall>c \<in> set body. \<not> is_brace c)
        \<and> m = CHR ''{'' # body @ [CHR ''}'']"
  then obtain body post where r: "r = CHR ''{'' # body @ CHR ''}'' # post"
    and b: "\<forall>c \<in> set body. \<not> is_brace c" and m: "m = CHR ''{'' # body @ [CHR ''}'']"
    by blast
  have cb: "is_brace CHR ''}''" by (simp add: is_brace_def)
  from b cb have "dropWhile (\<lambda>x. \<not> is_brace x) (body @ CHR ''}'' # post) = CHR ''}'' # post"
    by (simp add: dropWhile_append3)
  moreover from b cb have "takeWhile (\<lambda>x. \<not> is_brace x) (body @ CHR ''}'' # post) = body"
    by (simp add: takeWhile_append2)
  ultimately show "match_flat_object r = Some m" using r m by simp
qed

lemma search_flat_object_iff:
  "search_flat_object s = Some m \<longleftrightarrow>
     (\<exists>pre r. s = pre @ r \<and> match_flat_object r = Some m
        \<and> (\<forall>k < length pre. match_flat_object (drop k s) = None))"
proof (induction s)
  case Nil
  then show ?case by simp
next
  case (Cons c cs)
  show ?case
  proof (cases "match_flat_object (c # cs)")
    case (Some m0)
    have "(\<exists>pre r. c # cs = pre @ r \<and> match_flat_object r = Some m
        \<and> (\<forall>k < length pre. match_flat_object (drop k (c # cs)) = None)) \<longleftrightarrow> m = m0"
    proof
      assume "\<exists>pre r. c # cs = pre @ r \<and> match_flat_object r = Some m
          \<and> (\<forall>k < length pre. match_flat_object (drop k (c # cs)) = None)"
      then obtain pre r where e: "c # cs = pre @ r" and mm: "match_flat_object r = Some m"
        and l: "\<forall>k < length pre. match_flat_object (drop k (c # cs)) = None" by blast
      have "pre = []"
      proof (rule ccontr)
        assume "pre \<noteq> []"
        then have "0 < length pre" by simp
        with l have "match_flat_object (drop 0 (c # cs)) = None" by blast
        with Some show False by simp
      qed
      with e mm Some show "m = m0" by simp
    next
      assume "m = m0"
      with Some have "c # cs = [] @ (c # cs) \<and> match_flat_object (c # cs) = Some m
          \<and> (\<forall>k < length ([]::string). match_flat_object (drop k (c # cs)) = None)" by simp
      then show "\<exists>pre r. c # cs = pre @ r \<and> match_flat_object r = Some m
          \<and> (\<forall>k < length pre. match_flat_object (drop k (c # cs)) = None)" by blast
    qed
    with Some show ?thesis by (auto simp del: match_flat_object.simps)
  next
    case None
    have "(\<exists>pre r. c # cs = pre @ r \<and> match_flat_object r = Some m
        \<and> (\<forall>k < length pre. match_flat_object (drop k (c # cs)) = None))
      \<longleftrightarrow> (\<exists>pre r. cs = pre @ r \<and> match_flat_object r = Some m
        \<and> (\<forall>k < length pre. match_flat_object (drop k cs) = None))"
    proof
      assume "\<exists>pre r. c # cs = pre @ r \<and> match_flat_object r = Some m
          \<and> (\<forall>k < length pre. match_flat_object (drop k (c # cs)) = None)"
      then obtain pre r where e: "c # cs = pre @ r" and mm: "match_flat_object r = Some m"
        and l: "\<forall>k < length pre. match_flat_object (drop k (c # cs)) = None" by blast
      from e mm None obtain p where p: "pre = c # p" by (cases pre) auto
      with e have e': "cs = p @ r" by simp
      have "\<forall>k < length p. match_flat_object (drop k cs) = None"
      proof (intro allI impI)
        fix k assume "k < length p"
        with p have "Suc k < length pre" by simp
        with l have "match_flat_object (drop (Suc k) (c # cs)) = None" by blast
        then show "match_flat_object (drop k cs) = None" by simp
      qed
      with e' mm show "\<exists>pre r. cs = pre @ r \<and> match_flat_object r = Some m
          \<and> (\<forall>k < length pre. match_flat_object (drop k cs) = None)" by blast
    next
      assume "\<exists>pre r. cs = pre @ r \<and> match_flat_object r = Some m
          \<and> (\<forall>k < length pre. match_flat_object (drop k cs) = None)"
      then obtain p r where e: "cs = p @ r" and mm: "match_flat_object r = Some m"
        and l: "\<forall>k < length p. match_flat_object (drop k cs) = None" by blast
      have "\<forall>k < length (c # p). match_flat_object (drop k (c # cs)) = None"
      proof (intro allI impI)
        fix k assume k: "k < length (c # p)"
        show "match_flat_object (drop k (c # cs)) = None"
        proof (cases k)
          case 0
          with None show ?thesis by simp
        next
          case (Suc j)
          with k have "j < length p" by simp
          with l Suc show ?thesis by simp
        qed
      qed
      moreover from e have "c # cs = (c # p) @ r" by simp
      ultimately show "\<exists>pre r. c # cs = pre @ r \<and> match_flat_object r = Some m
          \<and> (\<forall>k < length pre. match_flat_object (drop k (c # cs)) = None)"
        using mm by blast
    qed
    with None Cons.IH show ?thesis by (simp del: match_flat_object.simps)
  qed
qed

lemma upto_last_split:
  "cl \<notin> set post \<Longrightarrow> upto_last cl (body @ cl # post) = body @ [cl]"
  by (auto simp: upto_last_def dropWhile_append3)

lemma search_greedy_none: "cl \<notin> set s \<Longrightarrow> search_greedy opn cl s = None"
  by (induction s) auto

lemma search_greedy_iff:
  "search_greedy opn cl s = Some m \<longleftrightarrow>
     (\<exists>pre body post. s = pre @ opn # body @ cl # post \<and> opn \<notin> set pre \<and> cl \<notin> set post
        \<and> m = opn # body @ [cl])"
proof
  assume "search_greedy opn cl s = Some m"
  then show "\<exists>pre body post. s = pre @ opn # body @ cl # post \<and> opn \<notin> set pre \<and> cl \<notin> set post
        \<and> m = opn # body @ [cl]"
  proof (induction s)
    case Nil
    then show ?case by simp
  next
    case (Cons c cs)
    show ?case
    proof (cases "c = opn \<and> cl \<in> set cs")
      case True
      then obtain body post where cs: "cs = body @ cl # post" and np: "cl \<notin> set post"
        by (auto dest: split_list_last)
      from True Cons.prems have "m = c # upto_last cl cs" by simp
      with cs np True have "m = opn # body @ [cl]" by (simp add: upto_last_split)
      moreover from cs True have "c # cs = [] @ opn # body @ cl # post" by simp
      ultimately show ?thesis using np by (metis empty_iff empty_set)
    next
      case False
      with Cons.prems have sc: "search_greedy opn cl cs = Some m" by auto
      from Cons.IH[OF sc] obtain pre body post where cs: "cs = pre @ opn # body @ cl # post"
        and a: "opn \<notin> set pre" and b: "cl \<notin> set post" and m: "m = opn # body @ [cl]"
        by blast
      from cs have "cl \<in> set cs" by simp
      with False have "c \<noteq> opn" by blast
      with a have "opn \<notin> set (c # pre)" by simp
      moreover from cs have "c # cs = (c # pre) @ opn # body @ cl # post" by simp
      ultimately show ?thesis using b m by blast
    qed
  qed
next
  assume "\<exists>pre body post. s = pre @ opn # body @ cl # post \<and> opn \<notin> set pre \<and> cl \<notin> set post
        \<and> m = opn # body @ [cl]"
  then obtain pre body post where s: "s = pre @ opn # body @ cl # post"
    and a: "opn \<notin> set pre" and b: "cl \<notin> set post" and m: "m = opn # body @ [cl]"
    by blast
  from a have "search_greedy opn cl (pre @ opn # body @ cl # post) = Some (opn # body @ [cl])"
  proof (induction pre)
    case Nil
    with b show ?case by (simp add: upto_last_split)
  next
    case (Cons p ps)
    then show ?case by auto
  qed
  with s m show "search_greedy opn cl s = Some m" by simp
qed

text \<open>
  C5, as amended. For every response text: the metrics call selects the leftmost
  substring that opens with a brace, closes with a brace and has no brace in between
  (so the innermost object of a nested one); the recommendation, risk and insight calls
  select the substring from the first opening square bracket to the last closing square
  bracket of the response (so across several arrays); the tool in \<open>tools.py\<close> selects
  from the first opening brace to the last closing brace. In each case there is no
  match exactly when no such substring exists.
\<close>

theorem parser_selection:
  "(search_flat_object s = Some m \<longleftrightarrow>
      (\<exists>pre body post. s = pre @ CHR ''{'' # body @ CHR ''}'' # post
         \<and> (\<forall>c \<in> set body. \<not> is_brace c) \<and> m = CHR ''{'' # body @ [CHR ''}'']
         \<and> (\<forall>pre' body' post'. s = pre' @ CHR ''{'' # body' @ CHR ''}'' # post'
               \<longrightarrow> (\<forall>c \<in> set body'. \<not> is_brace c) \<longrightarrow> length pre \<le> length pre')))
   \<and> (search_array s = Some m \<longleftrightarrow>
      (\<exists>pre body post. s = pre @ CHR ''['' # body @ CHR '']'' # post
         \<and> CHR ''['' \<notin> set pre \<and> CHR '']'' \<notin> set post \<and> m = CHR ''['' # body @ [CHR '']'']))
   \<and> (search_object_dotall s = Some m \<longleftrightarrow>
      (\<exists>pre body post. s = pre @ CHR ''{'' # body @ CHR ''}'' # post
         \<and> CHR ''{'' \<notin> set pre \<and> CHR ''}'' \<notin> set post \<and> m = CHR ''{'' # body @ [CHR ''}'']))"
proof (intro conjI)
  show "search_array s = Some m \<longleftrightarrow>
      (\<exists>pre body post. s = pre @ CHR ''['' # body @ CHR '']'' # post
         \<and> CHR ''['' \<notin> set pre \<and> CHR '']'' \<notin> set post \<and> m = CHR ''['' # body @ [CHR '']''])"
    unfolding search_array_def by (rule search_greedy_iff)
  show "search_object_dotall s = Some m \<longleftrightarrow>
      (\<exists>pre body post. s = pre @ CHR ''{'' # body @ CHR ''}'' # post
         \<and> CHR ''{'' \<notin> set pre \<and> CHR ''}'' \<notin> set post \<and> m = CHR ''{'' # body @ [CHR ''}''])"
    unfolding search_object_dotall_def by (rule search_greedy_iff)
  show "search_flat_object s = Some m \<longleftrightarrow>
      (\<exists>pre body post. s = pre @ CHR ''{'' # body @ CHR ''}'' # post
         \<and> (\<forall>c \<in> set body. \<not> is_brace c) \<and> m = CHR ''{'' # body @ [CHR ''}'']
         \<and> (\<forall>pre' body' post'. s = pre' @ CHR ''{'' # body' @ CHR ''}'' # post'
               \<longrightarrow> (\<forall>c \<in> set body'. \<not> is_brace c) \<longrightarrow> length pre \<le> length pre'))"
  proof
    assume "search_flat_object s = Some m"
    then obtain pre r where s: "s = pre @ r" and mm: "match_flat_object r = Some m"
      and l: "\<forall>k < length pre. match_flat_object (drop k s) = None"
      unfolding search_flat_object_iff by blast
    from mm obtain body post where r: "r = CHR ''{'' # body @ CHR ''}'' # post"
      and b: "\<forall>c \<in> set body. \<not> is_brace c" and m: "m = CHR ''{'' # body @ [CHR ''}'']"
      unfolding match_flat_object_iff by blast
    have "\<forall>pre' body' post'. s = pre' @ CHR ''{'' # body' @ CHR ''}'' # post'
               \<longrightarrow> (\<forall>c \<in> set body'. \<not> is_brace c) \<longrightarrow> length pre \<le> length pre'"
    proof (intro allI impI)
      fix pre' body' post'
      assume s': "s = pre' @ CHR ''{'' # body' @ CHR ''}'' # post'"
        and b': "\<forall>c \<in> set body'. \<not> is_brace c"
      from s' have "drop (length pre') s = CHR ''{'' # body' @ CHR ''}'' # post'" by simp
      with b' have "match_flat_object (drop (length pre') s) = Some (CHR ''{'' # body' @ [CHR ''}''])"
        unfolding match_flat_object_iff by blast
      with l show "length pre \<le> length pre'" by (metis not_le_imp_less option.distinct(1))
    qed
    with s r b m show "\<exists>pre body post. s = pre @ CHR ''{'' # body @ CHR ''}'' # post
         \<and> (\<forall>c \<in> set body. \<not> is_brace c) \<and> m = CHR ''{'' # body @ [CHR ''}'']
         \<and> (\<forall>pre' body' post'. s = pre' @ CHR ''{'' # body' @ CHR ''}'' # post'
               \<longrightarrow> (\<forall>c \<in> set body'. \<not> is_brace c) \<longrightarrow> length pre \<le> length pre')"
      by blast
  next
    assume "\<exists>pre body post. s = pre @ CHR ''{'' # body @ CHR ''}'' # post
         \<and> (\<forall>c \<in> set body. \<not> is_brace c) \<and> m = CHR ''{'' # body @ [CHR ''}'']
         \<and> (\<forall>pre' body' post'. s = pre' @ CHR ''{'' # body' @ CHR ''}'' # post'
               \<longrightarrow> (\<forall>c \<in> set body'. \<not> is_brace c) \<longrightarrow> length pre \<le> length pre')"
    then obtain pre body post where s: "s = pre @ CHR ''{'' # body @ CHR ''}'' # post"
      and b: "\<forall>c \<in> set body. \<not> is_brace c" and m: "m = CHR ''{'' # body @ [CHR ''}'']"
      and least: "\<forall>pre' body' post'. s = pre' @ CHR ''{'' # body' @ CHR ''}'' # post'
               \<longrightarrow> (\<forall>c \<in> set body'. \<not> is_brace c) \<longrightarrow> length pre \<le> length pre'"
      by blast
    have mm: "match_flat_object (CHR ''{'' # body @ CHR ''}'' # post) = Some m"
      unfolding match_flat_object_iff using b m by blast
    have "\<forall>k < length pre. match_flat_object (drop k s) = None"
    proof (intro allI impI)
      fix k assume k: "k < length pre"
      show "match_flat_object (drop k s) = None"
      proof (rule ccontr)
        assume "match_flat_object (drop k s) \<noteq> None"
        then obtain m' where "match_flat_object (drop k s) = Some m'" by blast
        then obtain body' post' where d: "drop k s = CHR ''{'' # body' @ CHR ''}'' # post'"
          and b': "\<forall>c \<in> set body'. \<not> is_brace c"
          unfolding match_flat_object_iff by blast
        have "s = take k s @ drop k s" by simp
        with d have "s = take k s @ CHR ''{'' # body' @ CHR ''}'' # post'" by simp
        with least b' have "length pre \<le> length (take k s)" by blast
        with k s show False by simp
      qed
    qed
    with s mm show "search_flat_object s = Some m"
      unfolding search_flat_object_iff by blast
  qed
qed

text \<open>
  Against C5 as stated: on a nested object the metrics call selects the inner object,
  and on two arrays the array calls select the span over both; the first balanced
  substring is the outer object and the first array.
\<close>

theorem parser_is_not_first_balanced:
  "search_flat_object ''{a:{b:1}}'' = Some ''{b:1}''
   \<and> spec_first_balanced ''{a:{b:1}}'' = Some ''{a:{b:1}}''
   \<and> search_array ''[1] and [2]'' = Some ''[1] and [2]''
   \<and> spec_first_balanced ''[1] and [2]'' = Some ''[1]''"
  by (simp add: is_brace_def search_array_def upto_last_def is_opener_def is_closer_def
      closer_def)

text \<open>The amended C5 at a response with two arrays.\<close>

theorem parser_selection_witness:
  "search_array ''see [1] and [2].'' = Some ''[1] and [2]''
   \<and> search_flat_object ''{a:{b:1}}'' = Some ''{b:1}''"
proof -
  have a: "\<exists>pre body post. ''see [1] and [2].'' = pre @ CHR ''['' # body @ CHR '']'' # post
         \<and> CHR ''['' \<notin> set pre \<and> CHR '']'' \<notin> set post
         \<and> ''[1] and [2]'' = CHR ''['' # body @ [CHR '']'']"
    by (rule exI[of _ "''see ''"], rule exI[of _ "''1] and [2''"], rule exI[of _ "''.''"]) simp
  have b: "search_flat_object ''{a:{b:1}}'' = Some ''{b:1}''"
    by (simp add: is_brace_def)
  from parser_selection[of "''see [1] and [2].''" "''[1] and [2]''"] a
  have "search_array ''see [1] and [2].'' = Some ''[1] and [2]''" by blast
  with b show ?thesis by simp
qed


section \<open>The company name derived from the filename\<close>







end
